theory Spec2Isabelle
  imports Complex_Main "HOL-Library.Code_Target_Numeral"
begin

section \<open>Floating-point values of Python and pandas\<close>

text \<open>
  A Python float is modelled by its value: a finite real, one of the two infinities, or
  NaN. Arithmetic on finite values is exact (rounding and overflow are abstracted away, and
  zero carries no sign); the special values follow IEEE 754, which is what numpy computes:
  a non-zero value divided by zero is an infinity, \<open>0/0\<close> and \<open>inf * 0\<close> are NaN, and every
  comparison with NaN is false. pandas uses NaN as its marker of a missing value.
\<close>

datatype pyfloat = Fin real | PInf | NInf | NaN

fun fl_sign :: "pyfloat \<Rightarrow> real" where
  "fl_sign (Fin a) = sgn a"
| "fl_sign PInf = 1"
| "fl_sign NInf = - 1"
| "fl_sign NaN = 0"

definition inf_of_sign :: "real \<Rightarrow> pyfloat" where
  "inf_of_sign s = (if 0 < s then PInf else if s < 0 then NInf else NaN)"

fun fl_add :: "pyfloat \<Rightarrow> pyfloat \<Rightarrow> pyfloat" where
  "fl_add NaN y = NaN"
| "fl_add x NaN = NaN"
| "fl_add (Fin a) (Fin b) = Fin (a + b)"
| "fl_add PInf NInf = NaN"
| "fl_add NInf PInf = NaN"
| "fl_add PInf y = PInf"
| "fl_add NInf y = NInf"
| "fl_add (Fin a) y = y"

fun fl_neg :: "pyfloat \<Rightarrow> pyfloat" where
  "fl_neg (Fin a) = Fin (- a)"
| "fl_neg PInf = NInf"
| "fl_neg NInf = PInf"
| "fl_neg NaN = NaN"

definition fl_sub :: "pyfloat \<Rightarrow> pyfloat \<Rightarrow> pyfloat" where
  "fl_sub x y = fl_add x (fl_neg y)"

fun fl_mul :: "pyfloat \<Rightarrow> pyfloat \<Rightarrow> pyfloat" where
  "fl_mul NaN y = NaN"
| "fl_mul x NaN = NaN"
| "fl_mul (Fin a) (Fin b) = Fin (a * b)"
| "fl_mul x y = inf_of_sign (fl_sign x * fl_sign y)"

fun fl_div :: "pyfloat \<Rightarrow> pyfloat \<Rightarrow> pyfloat" where
  "fl_div NaN y = NaN"
| "fl_div x NaN = NaN"
| "fl_div (Fin a) (Fin b) = (if b \<noteq> 0 then Fin (a / b) else inf_of_sign a)"
| "fl_div (Fin a) y = Fin 0"
| "fl_div x (Fin b) = inf_of_sign (fl_sign x * (if b < 0 then - 1 else 1))"
| "fl_div x y = NaN"

fun fl_less :: "pyfloat \<Rightarrow> pyfloat \<Rightarrow> bool" where
  "fl_less NaN y = False"
| "fl_less x NaN = False"
| "fl_less (Fin a) (Fin b) = (a < b)"
| "fl_less x NInf = False"
| "fl_less PInf y = False"
| "fl_less x y = True"

fun fl_eq :: "pyfloat \<Rightarrow> pyfloat \<Rightarrow> bool" where
  "fl_eq NaN y = False"
| "fl_eq x NaN = False"
| "fl_eq x y = (x = y)"

definition isna :: "pyfloat \<Rightarrow> bool" where
  "isna x = (x = NaN)"

section \<open>pandas column operations used by the strategy endpoint\<close>

text \<open>
  A column of a data frame is a list, in index order. An \<open>int64\<close> column is an
  \<open>int list\<close>, a \<open>float64\<close> column a \<open>pyfloat list\<close>.
\<close>

datatype py_exc = ValueError | TypeError | AttributeError | KeyError

text \<open>\<open>Series.fillna(v)\<close>: every missing entry becomes \<open>v\<close>, not only the first one.\<close>

definition fillna :: "pyfloat \<Rightarrow> pyfloat list \<Rightarrow> pyfloat list" where
  "fillna v col = map (\<lambda>x. if isna x then v else x) col"

text \<open>\<open>Series.shift(1)\<close>: every entry moves one place down, the first place is missing.\<close>

definition shift1 :: "pyfloat list \<Rightarrow> pyfloat list" where
  "shift1 col = (case col of [] \<Rightarrow> [] | x # xs \<Rightarrow> NaN # butlast col)"

definition astype_float :: "int list \<Rightarrow> pyfloat list" where
  "astype_float col = map (\<lambda>k. Fin (real_of_int k)) col"

text \<open>\<open>Series.diff()\<close> is \<open>col - col.shift(1)\<close>; on an integer column the result is a float column.\<close>

definition diff :: "int list \<Rightarrow> pyfloat list" where
  "diff col = map (\<lambda>(x, p). fl_sub x p) (zip (astype_float col) (shift1 (astype_float col)))"

text \<open>\<open>Series.pct_change()\<close> is \<open>col / col.shift(1) - 1\<close>.\<close>

definition pct_change :: "pyfloat list \<Rightarrow> pyfloat list" where
  "pct_change col = map (\<lambda>(x, p). fl_sub (fl_div x p) (Fin 1)) (zip col (shift1 col))"

text \<open>
  \<open>Series.prod()\<close> skips missing values (\<open>skipna=True\<close>): numpy's \<open>nanprod\<close> replaces each
  NaN by 1 and multiplies.
\<close>

definition prod_skipna :: "pyfloat list \<Rightarrow> pyfloat" where
  "prod_skipna col = foldl fl_mul (Fin 1) (map (\<lambda>x. if isna x then Fin 1 else x) col)"

text \<open>
  \<open>Series.rolling(window=w, min_periods=1).mean()\<close>. Building the window raises
  \<open>ValueError\<close> unless \<open>min_periods \<le> w\<close>. The aggregation is pandas' sliding one: it keeps
  the sum and the number of observations of the current window; moving to index \<open>i\<close> removes
  the observation that leaves the window (the one at \<open>i - w\<close>, once \<open>i \<ge> w\<close>) and adds the
  one at \<open>i\<close>; the mean is the sum over the count when at least \<open>min_periods\<close> observations
  are in the window, and is missing otherwise. The sum is kept exactly here; pandas keeps it
  in doubles, with a compensation term, so its mean can differ from this one in the last
  places. A window that does not fit a C long (\<open>2 ^ 63\<close> or more) is not told apart from a
  smaller one.
\<close>

fun roll_step :: "nat \<Rightarrow> real list \<Rightarrow> real \<times> nat \<times> pyfloat list \<Rightarrow> nat \<Rightarrow> real \<times> nat \<times> pyfloat list" where
  "roll_step w xs (sum_x, nobs, out) i =
     (let (s1, n1) = (if w \<le> i then (sum_x - xs ! (i - w), nobs - 1) else (sum_x, nobs));
          s2 = s1 + xs ! i;
          n2 = n1 + 1
      in (s2, n2, out @ [if 1 \<le> n2 then Fin (s2 / real n2) else NaN]))"

definition roll_mean :: "nat \<Rightarrow> real list \<Rightarrow> pyfloat list" where
  "roll_mean w xs = snd (snd (foldl (roll_step w xs) (0, 0, []) [0..<length xs]))"

definition rolling_mean :: "int \<Rightarrow> real list \<Rightarrow> py_exc + pyfloat list" where
  "rolling_mean window xs =
     (if window < 1 then Inl ValueError else Inr (roll_mean (nat window) xs))"

text \<open>\<open>df.loc[mask, column] = v\<close>: the entries where the mask holds are overwritten.\<close>

definition assign_where :: "bool list \<Rightarrow> int \<Rightarrow> int list \<Rightarrow> int list" where
  "assign_where cond v col = map (\<lambda>(m, x). if m then v else x) (zip cond col)"

text \<open>\<open>df[mask].index\<close>: the index entries of the rows where the mask holds.\<close>

definition index_where :: "bool list \<Rightarrow> 'a list \<Rightarrow> 'a list" where
  "index_where cond idx = map snd (filter fst (zip cond idx))"

section \<open>Timestamps\<close>

record py_datetime =
  year :: nat
  month :: nat
  day :: nat
  hour :: nat
  minute :: nat
  second :: nat

definition digit_char :: "nat \<Rightarrow> char" where
  "digit_char d = char_of (48 + d mod 10)"

text \<open>\<open>strftime('%Y-%m-%d')\<close>: the calendar date, zero-padded.\<close>

definition strftime_date :: "py_datetime \<Rightarrow> string" where
  "strftime_date t =
     [digit_char (year t div 1000), digit_char (year t div 100), digit_char (year t div 10),
      digit_char (year t), CHR ''-'', digit_char (month t div 10), digit_char (month t),
      CHR ''-'', digit_char (day t div 10), digit_char (day t)]"

section \<open>Python built-ins used by the validators\<close>

text \<open>
  A string is a list of code points below 256. The built-ins are modelled on such strings:
  \<open>str.strip\<close>, \<open>int\<close>, \<open>float\<close> and \<open>datetime.strptime\<close> with the format
  \<open>%Y-%m-%d %H:%M:%S\<close>. \<open>float\<close> yields the double nearest to the decimal it reads; a zero
  carries no sign.
\<close>

definition py_isspace :: "char \<Rightarrow> bool" where
  "py_isspace c = ((of_char c :: nat) \<in> {9, 10, 11, 12, 13, 28, 29, 30, 31, 32, 133, 160})"

definition py_strip :: "string \<Rightarrow> string" where
  "py_strip s = rev (dropWhile py_isspace (rev (dropWhile py_isspace s)))"

text \<open>
  \<open>int\<close> and \<open>float\<close> skip white space around the number, but less of it than
  \<open>str.strip\<close>: the separators \<open>U+001C\<close> to \<open>U+001F\<close> are not skipped.
\<close>

definition num_isspace :: "char \<Rightarrow> bool" where
  "num_isspace c = ((of_char c :: nat) \<in> {9, 10, 11, 12, 13, 32, 133, 160})"

definition num_strip :: "string \<Rightarrow> string" where
  "num_strip s = rev (dropWhile num_isspace (rev (dropWhile num_isspace s)))"

definition is_digit :: "char \<Rightarrow> bool" where
  "is_digit c = (48 \<le> (of_char c :: nat) \<and> (of_char c :: nat) \<le> 57)"

definition digit_val :: "char \<Rightarrow> nat" where
  "digit_val c = of_char c - 48"

text \<open>A digit part: digits, with single underscores allowed between two digits.\<close>

fun digitpart_ok :: "string \<Rightarrow> bool" where
  "digitpart_ok [] = False"
| "digitpart_ok [c] = is_digit c"
| "digitpart_ok (c # d # cs) =
     (is_digit c \<and> (if d = CHR ''_'' then digitpart_ok cs else digitpart_ok (d # cs)))"

definition digits_value :: "string \<Rightarrow> nat" where
  "digits_value s = foldl (\<lambda>a c. 10 * a + digit_val c) 0 (filter is_digit s)"

definition split_sign :: "string \<Rightarrow> bool \<times> string" where
  "split_sign s =
     (case s of
        [] \<Rightarrow> (False, [])
      | c # r \<Rightarrow> if c = CHR ''-'' then (True, r) else if c = CHR ''+'' then (False, r) else (False, s))"

text \<open>
  \<open>int\<close> refuses a string of more than 4300 digits (the default of
  \<open>sys.int_max_str_digits\<close>), leading zeros counted, underscores not.
\<close>

definition py_int :: "string \<Rightarrow> int option" where
  "py_int s =
     (let (neg, body) = split_sign (num_strip s) in
      if digitpart_ok body \<and> length (filter is_digit body) \<le> 4300
      then Some (if neg then - int (digits_value body) else int (digits_value body))
      else None)"

definition ascii_lower :: "char \<Rightarrow> char" where
  "ascii_lower c =
     (if 65 \<le> (of_char c :: nat) \<and> (of_char c :: nat) \<le> 90 then char_of ((of_char c :: nat) + 32) else c)"

definition is_exp_mark :: "char \<Rightarrow> bool" where
  "is_exp_mark c = (c = CHR ''e'' \<or> c = CHR ''E'')"

text \<open>The mantissa \<open>digits [. [digits]]\<close> or \<open>. digits\<close>: its integer and fraction digits.\<close>

definition parse_mantissa :: "string \<Rightarrow> (string \<times> string) option" where
  "parse_mantissa m =
     (let ip = takeWhile (\<lambda>c. c \<noteq> CHR ''.'') m; r = dropWhile (\<lambda>c. c \<noteq> CHR ''.'') m in
      if r = [] then (if digitpart_ok ip then Some (ip, []) else None)
      else
        let fp = tl r in
        if ip = [] then (if digitpart_ok fp then Some ([], fp) else None)
        else if digitpart_ok ip \<and> (fp = [] \<or> digitpart_ok fp) then Some (ip, fp)
        else None)"

definition parse_exponent :: "string \<Rightarrow> int option" where
  "parse_exponent r =
     (if r = [] then Some 0
      else
        let (neg, ds) = split_sign (tl r) in
        if digitpart_ok ds
        then Some (if neg then - int (digits_value ds) else int (digits_value ds))
        else None)"

definition decimal_value :: "string \<Rightarrow> string \<Rightarrow> int \<Rightarrow> real" where
  "decimal_value ip fp ex =
     (let m = real (digits_value ip) + real (digits_value fp) / 10 ^ length (filter is_digit fp)
      in if 0 \<le> ex then m * 10 ^ nat ex else m / 10 ^ nat (- ex))"

text \<open>
  Rounding a real to the nearest double, ties to the even significand: the binade of the
  magnitude gives the unit in the last place (that of the smallest normal number for
  anything below it), the magnitude is rounded to a multiple of it, and a result of
  \<open>2 ^ 1024\<close> or more is an infinity.
\<close>

fun bit_length :: "nat \<Rightarrow> nat" where
  "bit_length n = (if n = 0 then 0 else Suc (bit_length (n div 2)))"

declare bit_length.simps [simp del]

definition binade :: "real \<Rightarrow> int" where
  "binade a =
     (if 1 \<le> a then int (bit_length (nat \<lfloor>a\<rfloor>)) - 1
      else - int (bit_length (nat \<lceil>1 / a\<rceil> - 1)))"

definition pow2 :: "int \<Rightarrow> real" where
  "pow2 q = (if 0 \<le> q then 2 ^ nat q else 1 / 2 ^ nat (- q))"

definition round_half_even :: "real \<Rightarrow> int" where
  "round_half_even y =
     (let f = \<lfloor>y\<rfloor> in
      if y - of_int f < 1 / 2 then f
      else if 1 / 2 < y - of_int f then f + 1
      else if even f then f else f + 1)"

definition round_double :: "real \<Rightarrow> pyfloat" where
  "round_double x =
     (if x = 0 then Fin 0
      else
        let a = \<bar>x\<bar>;
            q = max (binade a) (- 1022) - 52;
            r = of_int (round_half_even (a / pow2 q)) * pow2 q
        in if 2 ^ 1024 \<le> r then (if x < 0 then NInf else PInf)
           else Fin (if x < 0 then - r else r))"

definition py_float :: "string \<Rightarrow> pyfloat option" where
  "py_float s =
     (let (neg, body) = split_sign (num_strip s); low = map ascii_lower body in
      if low = ''inf'' \<or> low = ''infinity'' then Some (if neg then NInf else PInf)
      else if low = ''nan'' then Some NaN
      else
        case parse_mantissa (takeWhile (\<lambda>c. \<not> is_exp_mark c) body) of
          None \<Rightarrow> None
        | Some (ip, fp) \<Rightarrow>
            (case parse_exponent (dropWhile (\<lambda>c. \<not> is_exp_mark c) body) of
               None \<Rightarrow> None
             | Some ex \<Rightarrow>
                 Some (round_double
                   (if neg then - decimal_value ip fp ex else decimal_value ip fp ex))))"

text \<open>
  \<open>strptime\<close> matches the string against the pattern of the format: four digits for the
  year; one or two digits for month, day, hour, minute and second within the range of the
  directive (the day also as a blank and a digit); the separators as written, the blank of
  the format standing for one or more white-space characters; nothing may be left over.
  The date and time it read must then exist.
\<close>

definition two_or_one :: "(nat \<Rightarrow> nat \<Rightarrow> bool) \<Rightarrow> (nat \<Rightarrow> bool) \<Rightarrow> string \<Rightarrow> (nat \<times> string) option" where
  "two_or_one ok2 ok1 s =
     (case s of
        [] \<Rightarrow> None
      | c # r \<Rightarrow>
          (case r of
             [] \<Rightarrow> if is_digit c \<and> ok1 (digit_val c) then Some (digit_val c, []) else None
           | d # r' \<Rightarrow>
               if is_digit c \<and> is_digit d \<and> ok2 (digit_val c) (digit_val d)
               then Some (10 * digit_val c + digit_val d, r')
               else if is_digit c \<and> ok1 (digit_val c) then Some (digit_val c, r)
               else None))"

definition expect_char :: "char \<Rightarrow> string \<Rightarrow> string option" where
  "expect_char ch s = (case s of [] \<Rightarrow> None | c # r \<Rightarrow> if c = ch then Some r else None)"

definition year_field :: "string \<Rightarrow> (nat \<times> string) option" where
  "year_field s =
     (if 4 \<le> length s \<and> list_all is_digit (take 4 s)
      then Some (digits_value (take 4 s), drop 4 s) else None)"

definition month_field :: "string \<Rightarrow> (nat \<times> string) option" where
  "month_field = two_or_one (\<lambda>a b. (a = 1 \<and> b \<le> 2) \<or> (a = 0 \<and> 1 \<le> b)) (\<lambda>a. 1 \<le> a)"

definition day_field :: "string \<Rightarrow> (nat \<times> string) option" where
  "day_field s =
     (case two_or_one (\<lambda>a b. (a = 3 \<and> b \<le> 1) \<or> a = 1 \<or> a = 2 \<or> (a = 0 \<and> 1 \<le> b)) (\<lambda>a. 1 \<le> a) s of
        Some x \<Rightarrow> Some x
      | None \<Rightarrow>
          (case s of
             c # d # r \<Rightarrow>
               if c = CHR '' '' \<and> is_digit d \<and> 1 \<le> digit_val d then Some (digit_val d, r) else None
           | _ \<Rightarrow> None))"

definition hour_field :: "string \<Rightarrow> (nat \<times> string) option" where
  "hour_field = two_or_one (\<lambda>a b. (a = 2 \<and> b \<le> 3) \<or> a \<le> 1) (\<lambda>a. True)"

definition minute_field :: "string \<Rightarrow> (nat \<times> string) option" where
  "minute_field = two_or_one (\<lambda>a b. a \<le> 5) (\<lambda>a. True)"

definition second_field :: "string \<Rightarrow> (nat \<times> string) option" where
  "second_field = two_or_one (\<lambda>a b. (a = 6 \<and> b \<le> 1) \<or> a \<le> 5) (\<lambda>a. True)"

definition white_space :: "string \<Rightarrow> string option" where
  "white_space s =
     (case s of [] \<Rightarrow> None | c # r \<Rightarrow> if py_isspace c then Some (dropWhile py_isspace r) else None)"

definition is_leap :: "nat \<Rightarrow> bool" where
  "is_leap y = (y mod 4 = 0 \<and> (y mod 100 \<noteq> 0 \<or> y mod 400 = 0))"

definition days_in_month :: "nat \<Rightarrow> nat \<Rightarrow> nat" where
  "days_in_month y m =
     (if m = 2 then (if is_leap y then 29 else 28)
      else if m = 4 \<or> m = 6 \<or> m = 9 \<or> m = 11 then 30 else 31)"

definition strptime :: "string \<Rightarrow> py_datetime option" where
  "strptime s =
     Option.bind (year_field s) (\<lambda>(y, s1).
     Option.bind (expect_char CHR ''-'' s1) (\<lambda>s2.
     Option.bind (month_field s2) (\<lambda>(mo, s3).
     Option.bind (expect_char CHR ''-'' s3) (\<lambda>s4.
     Option.bind (day_field s4) (\<lambda>(d, s5).
     Option.bind (white_space s5) (\<lambda>s6.
     Option.bind (hour_field s6) (\<lambda>(h, s7).
     Option.bind (expect_char CHR '':'' s7) (\<lambda>s8.
     Option.bind (minute_field s8) (\<lambda>(mi, s9).
     Option.bind (expect_char CHR '':'' s9) (\<lambda>s10.
     Option.bind (second_field s10) (\<lambda>(sec, s11).
       if s11 = [] \<and> 1 \<le> y \<and> d \<le> days_in_month y mo \<and> sec \<le> 59
       then Some \<lparr>year = y, month = mo, day = d, hour = h, minute = mi, second = sec\<rparr>
       else None)))))))))))"

text \<open>
  A value of a row is a string, or \<open>None\<close> where the reader filled a short line. The
  built-ins raise \<open>TypeError\<close> on \<open>None\<close>, \<open>ValueError\<close> on a string they cannot read;
  \<open>None\<close> has no method \<open>strip\<close>; a key the row lacks raises \<open>KeyError\<close>.
\<close>

datatype pyval = Str string | PyNone

type_synonym raw_row = "string \<rightharpoonup> pyval"

definition getitem :: "raw_row \<Rightarrow> string \<Rightarrow> py_exc + pyval" where
  "getitem row k = (case row k of None \<Rightarrow> Inl KeyError | Some v \<Rightarrow> Inr v)"

definition call_strptime :: "pyval \<Rightarrow> py_exc + py_datetime" where
  "call_strptime v =
     (case v of PyNone \<Rightarrow> Inl TypeError
      | Str s \<Rightarrow> (case strptime s of None \<Rightarrow> Inl ValueError | Some t \<Rightarrow> Inr t))"

definition call_float :: "pyval \<Rightarrow> py_exc + pyfloat" where
  "call_float v =
     (case v of PyNone \<Rightarrow> Inl TypeError
      | Str s \<Rightarrow> (case py_float s of None \<Rightarrow> Inl ValueError | Some x \<Rightarrow> Inr x))"

definition call_int :: "pyval \<Rightarrow> py_exc + int" where
  "call_int v =
     (case v of PyNone \<Rightarrow> Inl TypeError
      | Str s \<Rightarrow> (case py_int s of None \<Rightarrow> Inl ValueError | Some k \<Rightarrow> Inr k))"

definition call_strip :: "pyval \<Rightarrow> py_exc + string" where
  "call_strip v = (case v of PyNone \<Rightarrow> Inl AttributeError | Str s \<Rightarrow> Inr (py_strip s))"

section \<open>The strategy endpoint (\<open>get_strategy_performance\<close> of \<open>app/api.py\<close>)\<close>

text \<open>
  The model starts from the rows the query returned, in the order the database gave them:
  pairs of a timestamp and a finite close. \<open>strategy_frame\<close> is the data frame \<open>df\<close> with
  all the columns the endpoint adds to it; a window that pandas refuses raises inside the
  endpoint's \<open>try\<close> and comes back as an HTTP error.
\<close>

type_synonym price_row = "py_datetime \<times> real"

record frame =
  dt_index :: "py_datetime list"
  close :: "pyfloat list"
  short_ma :: "pyfloat list"
  long_ma :: "pyfloat list"
  signal :: "int list"
  position :: "pyfloat list"
  returns :: "pyfloat list"
  strategy_returns :: "pyfloat list"

definition signal_col :: "pyfloat list \<Rightarrow> pyfloat list \<Rightarrow> int list" where
  "signal_col sma lma =
     (let s0 = map (\<lambda>_. 0) sma;
          s1 = assign_where (map (\<lambda>(a, b). fl_less b a) (zip sma lma)) 1 s0;
          s2 = assign_where (map (\<lambda>(a, b). fl_less a b) (zip sma lma)) (- 1) s1
      in s2)"

definition position_col :: "int list \<Rightarrow> pyfloat list" where
  "position_col sig = fillna (Fin 0) (diff sig)"

definition returns_col :: "pyfloat list \<Rightarrow> pyfloat list" where
  "returns_col cl = fillna (Fin 0) (pct_change cl)"

definition strategy_returns_col :: "pyfloat list \<Rightarrow> int list \<Rightarrow> pyfloat list" where
  "strategy_returns_col rets sig =
     map (\<lambda>(r, s). fl_mul r s) (zip rets (fillna (Fin 0) (shift1 (astype_float sig))))"

definition strategy_frame :: "int \<Rightarrow> int \<Rightarrow> price_row list \<Rightarrow> py_exc + frame" where
  "strategy_frame short_w long_w rows =
     (case rolling_mean short_w (map snd rows) of
        Inl e \<Rightarrow> Inl e
      | Inr sma \<Rightarrow>
          (case rolling_mean long_w (map snd rows) of
             Inl e \<Rightarrow> Inl e
           | Inr lma \<Rightarrow>
               let sig = signal_col sma lma;
                   rets = returns_col (map Fin (map snd rows))
               in Inr \<lparr>dt_index = map fst rows, close = map Fin (map snd rows),
                        short_ma = sma, long_ma = lma, signal = sig,
                        position = position_col sig, returns = rets,
                        strategy_returns = strategy_returns_col rets sig\<rparr>))"

definition buy_events :: "pyfloat list \<Rightarrow> py_datetime list \<Rightarrow> string list" where
  "buy_events pos idx = map strftime_date (index_where (map (\<lambda>p. fl_eq p (Fin 2)) pos) idx)"

definition sell_events :: "pyfloat list \<Rightarrow> py_datetime list \<Rightarrow> string list" where
  "sell_events pos idx = map strftime_date (index_where (map (\<lambda>p. fl_eq p (Fin (- 2))) pos) idx)"

definition cumulative_return_of :: "pyfloat list \<Rightarrow> pyfloat" where
  "cumulative_return_of strat = fl_sub (prod_skipna (map (\<lambda>x. fl_add x (Fin 1)) strat)) (Fin 1)"

record performance =
  buy_signals :: "string list"
  sell_signals :: "string list"
  num_buys :: nat
  num_sells :: nat
  total_trades :: nat
  cumulative_return :: pyfloat
  short_window :: int
  long_window :: int
  instrument :: string

datatype response = Message string | Summary performance

datatype http_error = StrategyCalculationError py_exc

definition no_data :: response where
  "no_data = Message ''No data found for the given instrument.''"

definition get_strategy_performance ::
    "string \<Rightarrow> int \<Rightarrow> int \<Rightarrow> price_row list \<Rightarrow> http_error + response" where
  "get_strategy_performance instr short_w long_w rows =
     (if rows = [] then Inr no_data
      else
        case strategy_frame short_w long_w rows of
          Inl e \<Rightarrow> Inl (StrategyCalculationError e)
        | Inr df \<Rightarrow>
            let buys = buy_events (position df) (dt_index df);
                sells = sell_events (position df) (dt_index df)
            in Inr (Summary
                 \<lparr>buy_signals = buys, sell_signals = sells,
                  num_buys = length buys, num_sells = length sells,
                  total_trades = min (length buys) (length sells),
                  cumulative_return = cumulative_return_of (strategy_returns df),
                  short_window = short_w, long_window = long_w, instrument = instr\<rparr>))"

section \<open>The strict validator (\<open>CSVParser\<close> of \<open>app/csv_parser.py\<close>)\<close>

text \<open>
  What the logger receives is part of the result: each function returns the entries it
  logged, in order.
\<close>

datatype number = FloatNum pyfloat | IntNum int

datatype log_level = INFO | WARNING | ERROR

datatype log_msg =
    NegativeValueFound string number
  | InvalidCsvStructure "string list option"
  | HeaderValidationPassed
  | CsvFileNotFound
  | ParsingCompleted
  | ValidRows nat
  | InvalidRows nat

type_synonym log_entry = "log_level \<times> log_msg"

text \<open>
  The reasons of a rejection, one constructor for each message of \<open>validate_row\<close>, with the
  values the message prints. The parsed row is the tuple
  \<open>(dt, close, high, low, open_price, volume, instrument)\<close>. \<open>validate_row\<close> returns either
  \<open>(False, message, None)\<close> or \<open>(True, "", parsed_row)\<close>: the left and the right of a sum.
\<close>

datatype reason =
    InvalidDatetimeFormat pyval
  | InvalidPrice string pyval
  | InvalidVolume pyval
  | EmptyInstrumentName
  | HighLessThanLow pyfloat pyfloat
  | HighLessThanOpenOrClose pyfloat pyfloat pyfloat
  | LowGreaterThanOpenOrClose pyfloat pyfloat pyfloat
  | UnexpectedError py_exc

type_synonym parsed_row = "py_datetime \<times> pyfloat \<times> pyfloat \<times> pyfloat \<times> pyfloat \<times> int \<times> string"

text \<open>
  Inside the \<open>try\<close> block of \<open>validate_row\<close> a statement yields a value, raises, or
  returns from the function; the statements that follow run only after a value.
\<close>

datatype 'a outcome = Value 'a | Raised py_exc | Returned "reason + parsed_row"

definition and_then ::
    "'a outcome \<times> log_entry list \<Rightarrow> ('a \<Rightarrow> 'b outcome \<times> log_entry list) \<Rightarrow> 'b outcome \<times> log_entry list" where
  "and_then m f =
     (case m of
        (Value a, l) \<Rightarrow> (case f a of (r, l') \<Rightarrow> (r, l @ l'))
      | (Raised e, l) \<Rightarrow> (Raised e, l)
      | (Returned r, l) \<Rightarrow> (Returned r, l))"

definition evaluated :: "py_exc + 'a \<Rightarrow> 'a outcome \<times> log_entry list" where
  "evaluated r = (case r of Inl e \<Rightarrow> (Raised e, []) | Inr a \<Rightarrow> (Value a, []))"

text \<open>\<open>if x is None: return False, message, None\<close> (for a timestamp, \<open>if not dt\<close>).\<close>

definition return_if_none :: "'a option \<Rightarrow> reason \<Rightarrow> 'a outcome \<times> log_entry list" where
  "return_if_none x msg = (case x of None \<Rightarrow> (Returned (Inl msg), []) | Some a \<Rightarrow> (Value a, []))"

definition expected_columns :: "string list" where
  "expected_columns = [''datetime'', ''close'', ''high'', ''low'', ''open'', ''volume'', ''instrument'']"

definition validate_header :: "string list option \<Rightarrow> bool \<times> log_entry list" where
  "validate_header header =
     (if header \<noteq> Some expected_columns then (False, [(ERROR, InvalidCsvStructure header)])
      else (True, [(INFO, HeaderValidationPassed)]))"

definition validate_datetime :: "pyval \<Rightarrow> py_datetime option outcome \<times> log_entry list" where
  "validate_datetime datetime_str =
     (case call_strptime datetime_str of
        Inr t \<Rightarrow> (Value (Some t), [])
      | Inl e \<Rightarrow> if e = ValueError then (Value None, []) else (Raised e, []))"

definition validate_numeric :: "pyval \<Rightarrow> string \<Rightarrow> pyfloat option outcome \<times> log_entry list" where
  "validate_numeric v field_name =
     (case call_float v of
        Inr num_value \<Rightarrow>
          (Value (Some num_value),
           if fl_less num_value (Fin 0)
           then [(WARNING, NegativeValueFound field_name (FloatNum num_value))] else [])
      | Inl e \<Rightarrow> if e = ValueError then (Value None, []) else (Raised e, []))"

definition validate_integer :: "pyval \<Rightarrow> string \<Rightarrow> int option outcome \<times> log_entry list" where
  "validate_integer v field_name =
     (case call_int v of
        Inr int_value \<Rightarrow>
          (Value (Some int_value),
           if int_value < 0
           then [(WARNING, NegativeValueFound field_name (IntNum int_value))] else [])
      | Inl e \<Rightarrow> if e = ValueError then (Value None, []) else (Raised e, []))"

definition ohlc_checks ::
    "py_datetime \<Rightarrow> pyfloat \<Rightarrow> pyfloat \<Rightarrow> pyfloat \<Rightarrow> pyfloat \<Rightarrow> int \<Rightarrow> string \<Rightarrow> reason + parsed_row" where
  "ohlc_checks dt close_p high low open_price volume instr =
     (if fl_less high low then Inl (HighLessThanLow high low)
      else if fl_less high open_price \<or> fl_less high close_p
        then Inl (HighLessThanOpenOrClose high open_price close_p)
      else if fl_less open_price low \<or> fl_less close_p low
        then Inl (LowGreaterThanOpenOrClose low open_price close_p)
      else Inr (dt, close_p, high, low, open_price, volume, instr))"

definition validate_row_body :: "raw_row \<Rightarrow> parsed_row outcome \<times> log_entry list" where
  "validate_row_body row =
     and_then (evaluated (getitem row ''datetime'')) (\<lambda>dv.
     and_then (validate_datetime dv) (\<lambda>dt_opt.
     and_then (return_if_none dt_opt (InvalidDatetimeFormat dv)) (\<lambda>dt.
     and_then (evaluated (getitem row ''close'')) (\<lambda>cv.
     and_then (validate_numeric cv ''close'') (\<lambda>close_opt.
     and_then (return_if_none close_opt (InvalidPrice ''close'' cv)) (\<lambda>close_p.
     and_then (evaluated (getitem row ''high'')) (\<lambda>hv.
     and_then (validate_numeric hv ''high'') (\<lambda>high_opt.
     and_then (return_if_none high_opt (InvalidPrice ''high'' hv)) (\<lambda>high.
     and_then (evaluated (getitem row ''low'')) (\<lambda>lv.
     and_then (validate_numeric lv ''low'') (\<lambda>low_opt.
     and_then (return_if_none low_opt (InvalidPrice ''low'' lv)) (\<lambda>low.
     and_then (evaluated (getitem row ''open'')) (\<lambda>ov.
     and_then (validate_numeric ov ''open'') (\<lambda>open_opt.
     and_then (return_if_none open_opt (InvalidPrice ''open'' ov)) (\<lambda>open_price.
     and_then (evaluated (getitem row ''volume'')) (\<lambda>vv.
     and_then (validate_integer vv ''volume'') (\<lambda>volume_opt.
     and_then (return_if_none volume_opt (InvalidVolume vv)) (\<lambda>volume.
     and_then (evaluated (getitem row ''instrument'')) (\<lambda>iv.
     and_then (evaluated (call_strip iv)) (\<lambda>instr.
       if instr = [] then (Returned (Inl EmptyInstrumentName), [])
       else (Returned (ohlc_checks dt close_p high low open_price volume instr), [])
     ))))))))))))))))))))"

definition validate_row :: "raw_row \<Rightarrow> nat \<Rightarrow> (reason + parsed_row) \<times> log_entry list" where
  "validate_row row row_number =
     (case validate_row_body row of
        (Raised e, l) \<Rightarrow> (Inl (UnexpectedError e), l)
      | (Returned r, l) \<Rightarrow> (r, l)
      | (Value p, l) \<Rightarrow> (Inr p, l))"

text \<open>
  The parser object: the two lists it accumulates, and what it logged. The statistics are
  a projection of the two lists and are left out. A file is what \<open>csv.DictReader\<close> hands
  over: the field names of the header line (\<open>None\<close> for an empty file) and the rows; a
  file that does not exist is \<open>None\<close>.
\<close>

record csv_parser =
  parsed_data :: "parsed_row list"
  invalid_rows :: "(nat \<times> reason) list"
  logged :: "log_entry list"

record csv_file =
  fieldnames :: "string list option"
  data_rows :: "raw_row list"

definition new_parser :: csv_parser where
  "new_parser = \<lparr>parsed_data = [], invalid_rows = [], logged = []\<rparr>"

text \<open>The loop \<open>for row_number, row in enumerate(csv_reader, start=2)\<close>.\<close>

fun parse_rows :: "csv_parser \<Rightarrow> nat \<Rightarrow> raw_row list \<Rightarrow> csv_parser" where
  "parse_rows self row_number [] = self"
| "parse_rows self row_number (row # rest) =
     (case validate_row row row_number of
        (Inr parsed_row, l) \<Rightarrow>
          parse_rows
            (self\<lparr>parsed_data := parsed_data self @ [parsed_row], logged := logged self @ l\<rparr>)
            (row_number + 1) rest
      | (Inl error_msg, l) \<Rightarrow>
          parse_rows
            (self\<lparr>invalid_rows := invalid_rows self @ [(row_number, error_msg)],
                  logged := logged self @ l\<rparr>)
            (row_number + 1) rest)"

definition parse_csv :: "csv_parser \<Rightarrow> csv_file option \<Rightarrow> bool \<times> csv_parser" where
  "parse_csv self file =
     (case file of
        None \<Rightarrow> (False, self\<lparr>logged := logged self @ [(ERROR, CsvFileNotFound)]\<rparr>)
      | Some f \<Rightarrow>
          let (ok, l) = validate_header (fieldnames f);
              self1 = self\<lparr>logged := logged self @ l\<rparr>
          in if \<not> ok then (False, self1)
             else
               let self2 = parse_rows self1 2 (data_rows f)
               in (True, self2\<lparr>logged := logged self2 @
                     [(INFO, ParsingCompleted), (INFO, ValidRows (length (parsed_data self2))),
                      (INFO, InvalidRows (length (invalid_rows self2)))]\<rparr>))"

section \<open>The lenient validator (\<open>StockDataImporter.validate_row_data\<close> of \<open>app/import_data.py\<close>)\<close>

datatype import_error = EmptyInstrument | DataValidationError | UnexpectedImportError py_exc

definition then_py :: "py_exc + 'a \<Rightarrow> ('a \<Rightarrow> py_exc + 'b) \<Rightarrow> py_exc + 'b" where
  "then_py m f = (case m of Inl e \<Rightarrow> Inl e | Inr a \<Rightarrow> f a)"

text \<open>
  The \<open>try\<close> block parses every field and throws the values away; the only test of its own
  is the one on the instrument. It calls the logger nowhere.
\<close>

definition validate_row_data_body :: "raw_row \<Rightarrow> py_exc + (import_error + unit)" where
  "validate_row_data_body row =
     then_py (getitem row ''datetime'') (\<lambda>dv.
     then_py (call_strptime dv) (\<lambda>_.
     then_py (getitem row ''close'') (\<lambda>cv.
     then_py (call_float cv) (\<lambda>_.
     then_py (getitem row ''high'') (\<lambda>hv.
     then_py (call_float hv) (\<lambda>_.
     then_py (getitem row ''low'') (\<lambda>lv.
     then_py (call_float lv) (\<lambda>_.
     then_py (getitem row ''open'') (\<lambda>ov.
     then_py (call_float ov) (\<lambda>_.
     then_py (getitem row ''volume'') (\<lambda>vv.
     then_py (call_int vv) (\<lambda>_.
     then_py (getitem row ''instrument'') (\<lambda>iv.
     then_py (call_strip iv) (\<lambda>instr.
       if instr = [] then Inr (Inl EmptyInstrument) else Inr (Inr ())))))))))))))))"

definition validate_row_data :: "raw_row \<Rightarrow> (import_error + unit) \<times> log_entry list" where
  "validate_row_data row =
     (case validate_row_data_body row of
        Inr r \<Rightarrow> (r, [])
      | Inl e \<Rightarrow>
          if e = ValueError then (Inl DataValidationError, [])
          else (Inl (UnexpectedImportError e), []))"

section \<open>Reference notions for the statements\<close>

subsection \<open>Rows and batches\<close>

text \<open>
  A row whose fields all parse: the values the built-ins read from its seven fields, the
  instrument trimmed.
\<close>

definition str_field :: "raw_row \<Rightarrow> string \<Rightarrow> string option" where
  "str_field row k = (case row k of Some (Str s) \<Rightarrow> Some s | _ \<Rightarrow> None)"

definition parsed_fields :: "raw_row \<Rightarrow> parsed_row option" where
  "parsed_fields row =
     Option.bind (Option.bind (str_field row ''datetime'') strptime) (\<lambda>dt.
     Option.bind (Option.bind (str_field row ''close'') py_float) (\<lambda>c.
     Option.bind (Option.bind (str_field row ''high'') py_float) (\<lambda>h.
     Option.bind (Option.bind (str_field row ''low'') py_float) (\<lambda>l.
     Option.bind (Option.bind (str_field row ''open'') py_float) (\<lambda>ope.
     Option.bind (Option.bind (str_field row ''volume'') py_int) (\<lambda>v.
     Option.bind (str_field row ''instrument'') (\<lambda>i.
       Some (dt, c, h, l, ope, v, py_strip i))))))))"

text \<open>The warnings the strict validator logs for the values of a row, in field order.\<close>

definition negative_warnings :: "pyfloat \<Rightarrow> pyfloat \<Rightarrow> pyfloat \<Rightarrow> pyfloat \<Rightarrow> int \<Rightarrow> log_entry list" where
  "negative_warnings c h l ope v =
     (if fl_less c (Fin 0) then [(WARNING, NegativeValueFound ''close'' (FloatNum c))] else []) @
     (if fl_less h (Fin 0) then [(WARNING, NegativeValueFound ''high'' (FloatNum h))] else []) @
     (if fl_less l (Fin 0) then [(WARNING, NegativeValueFound ''low'' (FloatNum l))] else []) @
     (if fl_less ope (Fin 0) then [(WARNING, NegativeValueFound ''open'' (FloatNum ope))] else []) @
     (if v < 0 then [(WARNING, NegativeValueFound ''volume'' (IntNum v))] else [])"

text \<open>The row of the documented scenario, and the same row with other fields.\<close>

definition scenario_row :: raw_row where
  "scenario_row =
     [''datetime'' \<mapsto> Str ''2024-01-15 09:30:00'', ''close'' \<mapsto> Str ''153.00'',
      ''high'' \<mapsto> Str ''155.75'', ''low'' \<mapsto> Str ''149.25'', ''open'' \<mapsto> Str ''150.50'',
      ''volume'' \<mapsto> Str ''1000000'', ''instrument'' \<mapsto> Str ''HINDALCO'']"

definition scenario_time :: py_datetime where
  "scenario_time = \<lparr>year = 2024, month = 1, day = 15, hour = 9, minute = 30, second = 0\<rparr>"

text \<open>
  The two outputs of a batch read off row by row: the tuples of the rows that validate, and
  the rejections with the ordinal of their row, both in the order of \<open>enumerate\<close>.
\<close>

definition accepted_of :: "nat \<Rightarrow> raw_row list \<Rightarrow> parsed_row list" where
  "accepted_of start rows =
     List.map_filter (\<lambda>(k, row). case fst (validate_row row k) of Inr p \<Rightarrow> Some p | Inl e \<Rightarrow> None)
       (enumerate start rows)"

definition rejected_of :: "nat \<Rightarrow> raw_row list \<Rightarrow> (nat \<times> reason) list" where
  "rejected_of start rows =
     List.map_filter (\<lambda>(k, row). case fst (validate_row row k) of Inl e \<Rightarrow> Some (k, e) | Inr p \<Rightarrow> None)
       (enumerate start rows)"

text \<open>Variants of the scenario row, and a file of three rows.\<close>

definition negative_volume_row :: raw_row where
  "negative_volume_row = scenario_row(''volume'' \<mapsto> Str ''-5'')"

definition inverted_row :: raw_row where
  "inverted_row = scenario_row(''high'' \<mapsto> Str ''100'', ''low'' \<mapsto> Str ''150'')"

definition inverted_negative_row :: raw_row where
  "inverted_negative_row = scenario_row(''high'' \<mapsto> Str ''100'', ''low'' \<mapsto> Str ''150'', ''volume'' \<mapsto> Str ''-5'')"

definition blank_instrument_row :: raw_row where
  "blank_instrument_row =
     scenario_row(''high'' \<mapsto> Str ''100'', ''low'' \<mapsto> Str ''150'', ''instrument'' \<mapsto> Str ''   '')"

definition bad_volume_row :: raw_row where
  "bad_volume_row = scenario_row(''volume'' \<mapsto> Str ''x'')"

definition example_file :: csv_file where
  "example_file = \<lparr>fieldnames = Some expected_columns,
     data_rows = [scenario_row, bad_volume_row, negative_volume_row]\<rparr>"

subsection \<open>Price series\<close>

text \<open>
  The arithmetic mean of the closes in the trailing window of size \<open>min w (i + 1)\<close> that
  ends at index \<open>i\<close>: the reading of the moving average that the columns are compared with.
\<close>

definition spec_trailing_mean :: "nat \<Rightarrow> real list \<Rightarrow> nat \<Rightarrow> real" where
  "spec_trailing_mean w cl i =
     (let k = min w (i + 1) in sum_list (take k (drop (i + 1 - k) cl)) / real k)"

text \<open>The sum the sliding aggregation holds after \<open>m\<close> steps, as a sum over indices.\<close>

definition window_sum :: "nat \<Rightarrow> real list \<Rightarrow> nat \<Rightarrow> real" where
  "window_sum w xs m = (\<Sum>j = m - min w m ..< m. xs ! j)"

text \<open>A small series for concrete instances: five January days of 2024.\<close>

definition day_of_jan :: "nat \<Rightarrow> py_datetime" where
  "day_of_jan k = \<lparr>year = 2024, month = 1, day = k, hour = 9, minute = 30, second = 0\<rparr>"

definition example_rows :: "price_row list" where
  "example_rows =
     [(day_of_jan 1, 3), (day_of_jan 2, 1), (day_of_jan 3, 5), (day_of_jan 4, 1), (day_of_jan 5, 7)]"

text \<open>
  The cumulative return read off the formulas \<open>r[i] = close[i]/close[i-1] - 1\<close>,
  \<open>strat[i] = r[i] * signal[i-1]\<close> (both \<open>0\<close> at index \<open>0\<close>) and
  \<open>\<Prod>(1 + strat[i]) - 1\<close>, computed in float arithmetic with nothing filled in and
  nothing skipped; and the same per-step strategy return over the reals, for series whose
  divisors are not zero.
\<close>

definition spec_r :: "real list \<Rightarrow> nat \<Rightarrow> pyfloat" where
  "spec_r cl i = (if i = 0 then Fin 0 else fl_sub (fl_div (Fin (cl ! i)) (Fin (cl ! (i - 1)))) (Fin 1))"

definition spec_strat :: "real list \<Rightarrow> int list \<Rightarrow> nat \<Rightarrow> pyfloat" where
  "spec_strat cl sig i =
     (if i = 0 then Fin 0 else fl_mul (spec_r cl i) (Fin (real_of_int (sig ! (i - 1)))))"

definition spec_cumulative_return :: "real list \<Rightarrow> int list \<Rightarrow> pyfloat" where
  "spec_cumulative_return cl sig =
     fl_sub (foldl fl_mul (Fin 1) (map (\<lambda>i. fl_add (Fin 1) (spec_strat cl sig i)) [0..<length cl])) (Fin 1)"

definition real_strat :: "real list \<Rightarrow> int list \<Rightarrow> nat \<Rightarrow> real" where
  "real_strat cl sig i =
     (if i = 0 then 0 else (cl ! i / cl ! (i - 1) - 1) * real_of_int (sig ! (i - 1)))"

text \<open>Two more series: one that reaches a zero close and stays there, and a flat one.\<close>

definition zero_close_rows :: "price_row list" where
  "zero_close_rows = [(day_of_jan 1, 1), (day_of_jan 2, 0), (day_of_jan 3, 0)]"

definition flat_rows :: "price_row list" where
  "flat_rows = [(day_of_jan 1, 100), (day_of_jan 2, 100), (day_of_jan 3, 100), (day_of_jan 4, 100)]"

section \<open>The moving averages are trailing means\<close>

lemma window_sum_step:
  assumes "1 \<le> w"
  shows "(if w \<le> m then window_sum w xs m - xs ! (m - w) else window_sum w xs m) + xs ! m
           = window_sum w xs (Suc m)"
proof (cases "w \<le> m")
  case True
  then have a: "m - min w m = m - w" "Suc m - min w (Suc m) = Suc (m - w)"
    using assms by (auto simp: min_def)
  have "m - w < m" using True assms by simp
  then have "(\<Sum>j = m - w ..< m. xs ! j) = xs ! (m - w) + (\<Sum>j = Suc (m - w) ..< m. xs ! j)"
    by (simp add: sum.atLeast_Suc_lessThan)
  moreover have "Suc (m - w) \<le> m" using True assms by simp
  moreover have "Suc m - w = Suc (m - w)" using True by simp
  ultimately show ?thesis using True
    by (simp add: window_sum_def a)
next
  case False
  then have a: "m - min w m = 0" "Suc m - min w (Suc m) = 0"
    by (auto simp: min_def)
  show ?thesis using False by (simp add: window_sum_def a)
qed

lemma roll_fold:
  assumes "1 \<le> w"
  shows "foldl (roll_step w xs) (0, 0, []) [0..<m] =
           (window_sum w xs m, min w m,
            map (\<lambda>i. Fin (window_sum w xs (Suc i) / real (min w (Suc i)))) [0..<m])"
proof (induction m)
  case 0
  show ?case by (simp add: window_sum_def)
next
  case (Suc m)
  have n: "(if w \<le> m then min w m - 1 else min w m) + 1 = min w (Suc m)"
    using assms by (auto simp: min_def)
  have "foldl (roll_step w xs) (0, 0, []) [0..<Suc m] =
          roll_step w xs (foldl (roll_step w xs) (0, 0, []) [0..<m]) m"
    by simp
  also have "\<dots> = roll_step w xs (window_sum w xs m, min w m,
            map (\<lambda>i. Fin (window_sum w xs (Suc i) / real (min w (Suc i)))) [0..<m]) m"
    by (simp only: Suc.IH)
  also have "\<dots> = (window_sum w xs (Suc m), min w (Suc m),
            map (\<lambda>i. Fin (window_sum w xs (Suc i) / real (min w (Suc i)))) [0..<Suc m])"
    using window_sum_step [OF assms, of m xs] n assms
    by (auto simp: Let_def min_def)
  finally show ?case .
qed

lemma roll_mean_eq:
  "1 \<le> w \<Longrightarrow> roll_mean w xs =
      map (\<lambda>i. Fin (window_sum w xs (Suc i) / real (min w (Suc i)))) [0..<length xs]"
  by (simp add: roll_mean_def roll_fold)

lemma window_sum_sum_list:
  assumes "m \<le> length xs"
  shows "window_sum w xs m = sum_list (take (min w m) (drop (m - min w m) xs))"
proof -
  let ?k = "min w m"
  have len: "length (take ?k (drop (m - ?k) xs)) = ?k"
    using assms by (auto simp: min_def)
  have "sum_list (take ?k (drop (m - ?k) xs)) = (\<Sum>i = 0..<?k. take ?k (drop (m - ?k) xs) ! i)"
    by (subst sum_list_sum_nth) (simp only: len)
  also have "\<dots> = (\<Sum>i = 0..<?k. xs ! (m - ?k + i))"
    using assms by (intro sum.cong) (auto simp: min_def)
  also have "\<dots> = (\<Sum>j = m - ?k ..< m. xs ! j)"
    using sum.shift_bounds_nat_ivl [of "\<lambda>j. xs ! j" 0 "m - ?k" ?k]
    by (simp add: add.commute min_def)
  finally show ?thesis by (simp add: window_sum_def)
qed

lemma length_roll_mean: "1 \<le> w \<Longrightarrow> length (roll_mean w xs) = length xs"
  by (simp add: roll_mean_eq)

lemma roll_mean_nth:
  assumes "1 \<le> w" "i < length xs"
  shows "roll_mean w xs ! i = Fin (spec_trailing_mean w xs i)"
proof -
  have "Suc i \<le> length xs" using assms by simp
  then have "window_sum w xs (Suc i) = sum_list (take (min w (Suc i)) (drop (Suc i - min w (Suc i)) xs))"
    by (rule window_sum_sum_list)
  then show ?thesis using assms
    by (simp add: roll_mean_eq spec_trailing_mean_def Let_def)
qed

lemma rolling_mean_ok: "1 \<le> w \<Longrightarrow> rolling_mean w xs = Inr (roll_mean (nat w) xs)"
  by (simp add: rolling_mean_def)

lemma strategy_frame_ok:
  assumes "1 \<le> sw" "1 \<le> lw"
  shows "strategy_frame sw lw rows =
     Inr \<lparr>dt_index = map fst rows, close = map Fin (map snd rows),
          short_ma = roll_mean (nat sw) (map snd rows), long_ma = roll_mean (nat lw) (map snd rows),
          signal = signal_col (roll_mean (nat sw) (map snd rows)) (roll_mean (nat lw) (map snd rows)),
          position = position_col (signal_col (roll_mean (nat sw) (map snd rows)) (roll_mean (nat lw) (map snd rows))),
          returns = returns_col (map Fin (map snd rows)),
          strategy_returns = strategy_returns_col (returns_col (map Fin (map snd rows)))
             (signal_col (roll_mean (nat sw) (map snd rows)) (roll_mean (nat lw) (map snd rows)))\<rparr>"
  using assms by (simp add: strategy_frame_def rolling_mean_ok Let_def)

lemma signal_col_nth:
  assumes "length lma = length sma" "i < length sma"
  shows "signal_col sma lma ! i =
           (if fl_less (sma ! i) (lma ! i) then - 1 else if fl_less (lma ! i) (sma ! i) then 1 else 0)"
  using assms by (simp add: signal_col_def assign_where_def Let_def)

lemma length_signal_col: "length lma = length sma \<Longrightarrow> length (signal_col sma lma) = length sma"
  by (simp add: signal_col_def assign_where_def Let_def)

section \<open>The columns, entry by entry\<close>

lemma length_shift1: "length (shift1 col) = length col"
  by (cases col) (simp_all add: shift1_def)

lemma shift1_nth:
  assumes i: "i < length col"
  shows "shift1 col ! i = (if i = 0 then NaN else col ! (i - 1))"
proof (cases col)
  case Nil
  then show ?thesis using i by simp
next
  case (Cons x xs)
  show ?thesis
  proof (cases i)
    case 0
    then show ?thesis using Cons by (simp add: shift1_def)
  next
    case (Suc k)
    then have "k < length (butlast col)" using i by simp
    then have "butlast col ! k = col ! k" by (rule nth_butlast)
    then show ?thesis using Cons Suc by (simp add: shift1_def del: butlast.simps)
  qed
qed

lemma length_returns_col: "length (returns_col cl) = length cl"
  by (simp add: returns_col_def fillna_def pct_change_def length_shift1)

lemma returns_col_nth:
  assumes "i < length cl"
  shows "returns_col (map Fin cl) ! i =
           (if i = 0 then Fin 0
            else if cl ! (i - 1) \<noteq> 0 then Fin (cl ! i / cl ! (i - 1) - 1)
            else if cl ! i = 0 then Fin 0 else inf_of_sign (cl ! i))"
  using assms
  by (auto simp: returns_col_def fillna_def pct_change_def length_shift1 shift1_nth isna_def
        fl_sub_def inf_of_sign_def)

lemma length_strategy_returns_col:
  "length sig = length rets \<Longrightarrow> length (strategy_returns_col rets sig) = length rets"
  by (simp add: strategy_returns_col_def fillna_def length_shift1 astype_float_def)

lemma shifted_signal_nth:
  "i < length sig \<Longrightarrow>
     fillna (Fin 0) (shift1 (astype_float sig)) ! i =
       (if i = 0 then Fin 0 else Fin (real_of_int (sig ! (i - 1))))"
  by (simp add: fillna_def length_shift1 shift1_nth astype_float_def isna_def)

lemma strategy_returns_col_nth:
  assumes "length sig = length rets" "i < length rets"
  shows "strategy_returns_col rets sig ! i =
           fl_mul (rets ! i) (if i = 0 then Fin 0 else Fin (real_of_int (sig ! (i - 1))))"
  using assms shifted_signal_nth [of i sig]
  by (simp add: strategy_returns_col_def fillna_def length_shift1 astype_float_def)

lemma foldl_fl_mul_Fin: "foldl fl_mul (Fin a) (map Fin ys) = Fin (a * prod_list ys)"
  by (induction ys arbitrary: a) (simp_all add: mult.assoc)

lemma prod_skipna_Fin: "prod_skipna (map Fin ys) = Fin (prod_list ys)"
  using foldl_fl_mul_Fin [of 1 ys] by (simp add: prod_skipna_def isna_def comp_def)

lemma cumulative_return_of_Fin:
  "cumulative_return_of (map Fin ys) = Fin (prod_list (map (\<lambda>y. 1 + y) ys) - 1)"
proof -
  have "map (\<lambda>x. fl_add x (Fin 1)) (map Fin ys) = map Fin (map (\<lambda>y. 1 + y) ys)"
    by (simp add: add.commute)
  then have "cumulative_return_of (map Fin ys) =
               fl_sub (prod_skipna (map Fin (map (\<lambda>y. 1 + y) ys))) (Fin 1)"
    by (simp only: cumulative_return_of_def)
  also have "\<dots> = fl_sub (Fin (prod_list (map (\<lambda>y. 1 + y) ys))) (Fin 1)"
    by (simp only: prod_skipna_Fin)
  finally show ?thesis
    by (simp add: fl_sub_def)
qed

lemma strategy_returns_finite:
  assumes len: "length sig = length cl"
    and nz: "\<forall>i. Suc i < length cl \<longrightarrow> cl ! i \<noteq> 0"
  shows "strategy_returns_col (returns_col (map Fin cl)) sig = map Fin (map (real_strat cl sig) [0..<length cl])"
proof (rule nth_equalityI)
  show "length (strategy_returns_col (returns_col (map Fin cl)) sig) =
          length (map Fin (map (real_strat cl sig) [0..<length cl]))"
    using len by (simp add: length_strategy_returns_col length_returns_col)
next
  fix i assume "i < length (strategy_returns_col (returns_col (map Fin cl)) sig)"
  then have i: "i < length cl"
    using len by (simp add: length_strategy_returns_col length_returns_col)
  have l2: "length sig = length (returns_col (map Fin cl))" "i < length (returns_col (map Fin cl))"
    using len i by (simp_all add: length_returns_col)
  have "0 < i \<Longrightarrow> cl ! (i - 1) \<noteq> 0" using nz i by (cases i) simp_all
  then show "strategy_returns_col (returns_col (map Fin cl)) sig ! i =
          map Fin (map (real_strat cl sig) [0..<length cl]) ! i"
    using i by (simp add: strategy_returns_col_nth [OF l2] returns_col_nth real_strat_def)
qed

lemma spec_cumulative_return_finite:
  assumes nz: "\<forall>i. Suc i < length cl \<longrightarrow> cl ! i \<noteq> 0"
  shows "spec_cumulative_return cl sig =
           Fin (prod_list (map (\<lambda>i. 1 + real_strat cl sig i) [0..<length cl]) - 1)"
proof -
  have "map (\<lambda>i. fl_add (Fin 1) (spec_strat cl sig i)) [0..<length cl] =
          map Fin (map (\<lambda>i. 1 + real_strat cl sig i) [0..<length cl])"
  proof -
    have "fl_add (Fin 1) (spec_strat cl sig i) = Fin (1 + real_strat cl sig i)"
      if "i < length cl" for i
    proof -
      have "0 < i \<Longrightarrow> cl ! (i - 1) \<noteq> 0" using nz that by (cases i) simp_all
      then show ?thesis
        by (simp add: spec_strat_def spec_r_def real_strat_def fl_sub_def)
    qed
    then show ?thesis by simp
  qed
  then have "spec_cumulative_return cl sig =
      fl_sub (foldl fl_mul (Fin 1) (map Fin (map (\<lambda>i. 1 + real_strat cl sig i) [0..<length cl]))) (Fin 1)"
    by (simp only: spec_cumulative_return_def)
  also have "\<dots> = fl_sub (Fin (1 * prod_list (map (\<lambda>i. 1 + real_strat cl sig i) [0..<length cl]))) (Fin 1)"
    by (simp only: foldl_fl_mul_Fin)
  finally show ?thesis by (simp add: fl_sub_def)
qed

lemma spec_trailing_mean_const:
  assumes "1 \<le> w" "i < n"
  shows "spec_trailing_mean w (replicate n c) i = c"
proof -
  let ?k = "min w (i + 1)"
  have k: "1 \<le> ?k" using assms by (simp add: min_def)
  have "?k \<le> n - (i + 1 - ?k)" using assms by (simp add: min_def)
  then have "min ?k (n - (i + 1 - ?k)) = ?k" by (rule min_absorb1)
  then have "take ?k (drop (i + 1 - ?k) (replicate n c)) = replicate ?k c"
    by (simp only: drop_replicate take_replicate)
  then have "sum_list (take ?k (drop (i + 1 - ?k) (replicate n c))) = real ?k * c"
    by (simp only: sum_list_replicate)
  then show ?thesis using k
    by (simp add: spec_trailing_mean_def Let_def del: sum_list_replicate)
qed

lemma roll_mean_const:
  assumes "1 \<le> w"
  shows "roll_mean w (replicate n c) = replicate n (Fin c)"
proof (rule nth_equalityI)
  show "length (roll_mean w (replicate n c)) = length (replicate n (Fin c))"
    using assms by (simp add: length_roll_mean)
next
  fix i assume "i < length (roll_mean w (replicate n c))"
  then have "i < n" using assms by (simp add: length_roll_mean)
  then show "roll_mean w (replicate n c) ! i = replicate n (Fin c) ! i"
    using assms by (simp add: roll_mean_nth spec_trailing_mean_const)
qed

lemma signal_col_same: "signal_col (replicate n (Fin c)) (replicate n (Fin c)) = replicate n 0"
  by (rule nth_equalityI) (simp_all add: length_signal_col signal_col_nth)

lemma returns_col_const: "returns_col (replicate n (Fin c)) = replicate n (Fin 0)"
proof (rule nth_equalityI)
  show "length (returns_col (replicate n (Fin c))) = length (replicate n (Fin 0))"
    by (simp add: length_returns_col)
next
  fix i assume "i < length (returns_col (replicate n (Fin c)))"
  then have i: "i < n" by (simp add: length_returns_col)
  then show "returns_col (replicate n (Fin c)) ! i = replicate n (Fin 0) ! i"
    using returns_col_nth [of i "replicate n c"] by simp
qed

lemma strategy_returns_zero:
  "strategy_returns_col (replicate n (Fin 0)) (replicate n 0) = replicate n (Fin 0)"
proof (rule nth_equalityI)
  show "length (strategy_returns_col (replicate n (Fin 0)) (replicate n 0)) =
          length (replicate n (Fin 0))"
    by (simp add: length_strategy_returns_col)
next
  fix i assume "i < length (strategy_returns_col (replicate n (Fin 0)) (replicate n 0))"
  then have i: "i < n" by (simp add: length_strategy_returns_col)
  then show "strategy_returns_col (replicate n (Fin 0)) (replicate n 0) ! i =
          replicate n (Fin 0) ! i"
    using strategy_returns_col_nth [of "replicate n 0" "replicate n (Fin 0)" i] by simp
qed

lemma map_const_replicate: "\<forall>x \<in> set xs. f x = c \<Longrightarrow> map f xs = replicate (length xs) c"
  by (induction xs) simp_all

lemma length_position_col: "length (position_col sig) = length sig"
  by (simp add: position_col_def fillna_def diff_def length_shift1 astype_float_def)

lemma position_col_nth:
  assumes "i < length sig"
  shows "position_col sig ! i =
           (if i = 0 then Fin 0 else Fin (real_of_int (sig ! i - sig ! (i - 1))))"
  using assms
  by (simp add: position_col_def fillna_def diff_def length_shift1 shift1_nth astype_float_def
        isna_def fl_sub_def)

lemma zip_as_index_map:
  "length xs = length ys \<Longrightarrow> zip xs ys = map (\<lambda>i. (xs ! i, ys ! i)) [0..<length xs]"
  by (rule nth_equalityI) simp_all

lemma index_where_filter:
  assumes "length c = length idx"
  shows "index_where c idx = map (\<lambda>i. idx ! i) (filter (\<lambda>i. c ! i) [0..<length idx])"
  using assms
  by (simp add: index_where_def zip_as_index_map filter_map comp_def)

lemma fl_eq_Fin: "fl_eq p (Fin a) = (p = Fin a)"
  by (cases p) auto

lemma buy_events_filter:
  assumes "length pos = length idx"
  shows "buy_events pos idx =
           map (\<lambda>i. strftime_date (idx ! i)) (filter (\<lambda>i. pos ! i = Fin 2) [0..<length idx])"
proof -
  have "filter (\<lambda>i. map (\<lambda>p. fl_eq p (Fin 2)) pos ! i) [0..<length idx] =
          filter (\<lambda>i. pos ! i = Fin 2) [0..<length idx]"
    using assms by (intro filter_cong) (simp_all add: fl_eq_Fin)
  then show ?thesis using assms
    by (simp add: buy_events_def index_where_filter comp_def)
qed

lemma sell_events_filter:
  assumes "length pos = length idx"
  shows "sell_events pos idx =
           map (\<lambda>i. strftime_date (idx ! i)) (filter (\<lambda>i. pos ! i = Fin (- 2)) [0..<length idx])"
proof -
  have "filter (\<lambda>i. map (\<lambda>p. fl_eq p (Fin (- 2))) pos ! i) [0..<length idx] =
          filter (\<lambda>i. pos ! i = Fin (- 2)) [0..<length idx]"
    using assms by (intro filter_cong) (simp_all add: fl_eq_Fin)
  then show ?thesis using assms
    by (simp add: sell_events_def index_where_filter comp_def)
qed

section \<open>Properties of the strategy endpoint\<close>

text \<open>
  C9. On the empty series the endpoint returns the "no data" message as an ordinary
  response, whatever the windows are: the test for emptiness comes before any computation
  that could raise, so no error is produced.
\<close>

theorem empty_series_returns_no_data:
  "get_strategy_performance instr sw lw [] = Inr no_data"
  by (simp add: get_strategy_performance_def)

text \<open>
  C5. For a series of finite closes and positive windows, both moving averages are finite
  at every index, and the signal there is \<open>1\<close> when the short average is above the long one,
  \<open>-1\<close> when it is below, and \<open>0\<close> when the two are equal; so every signal is one of
  \<open>-1\<close>, \<open>0\<close>, \<open>1\<close>.
\<close>

theorem signal_is_sign_of_ma_difference:
  assumes "1 \<le> sw" "1 \<le> lw" "i < length rows"
  shows "\<exists>df a b. strategy_frame sw lw rows = Inr df \<and>
           short_ma df ! i = Fin a \<and> long_ma df ! i = Fin b \<and>
           signal df ! i = (if a > b then 1 else if a < b then - 1 else 0) \<and>
           signal df ! i \<in> {- 1, 0, 1}"
proof -
  have w: "1 \<le> nat sw" "1 \<le> nat lw" using assms by simp_all
  let ?cl = "map snd rows"
  have i: "i < length ?cl" using assms by simp
  have len: "length (roll_mean (nat lw) ?cl) = length (roll_mean (nat sw) ?cl)"
       "i < length (roll_mean (nat sw) ?cl)"
    using w assms by (simp_all add: length_roll_mean)
  show ?thesis
    by (simp add: strategy_frame_ok [OF assms(1,2)] signal_col_nth [OF len]
          roll_mean_nth [OF w(1) i] roll_mean_nth [OF w(2) i])
qed

theorem signal_is_sign_of_ma_difference_witness:
  "(1::int) \<le> 1 \<and> (1::int) \<le> 2 \<and> 2 < length example_rows \<and>
   (\<exists>df a b. strategy_frame 1 2 example_rows = Inr df \<and>
           short_ma df ! 2 = Fin a \<and> long_ma df ! 2 = Fin b \<and>
           signal df ! 2 = (if a > b then 1 else if a < b then - 1 else 0) \<and>
           signal df ! 2 \<in> {- 1, 0, 1})"
  using signal_is_sign_of_ma_difference [of 1 2 2 example_rows]
  by (simp add: example_rows_def)

text \<open>
  C2, as it holds. For a non-empty series in which every close that is divided by (every
  close but the last) is not zero, and positive windows, the cumulative return is finite and
  equals the product over the indices, in time order, of \<open>1 + strat[i]\<close>, minus one, where
  \<open>strat[0] = 0\<close> and \<open>strat[i] = (close[i]/close[i-1] - 1) * signal[i-1]\<close>: the position
  held over step \<open>i\<close> is the signal of the step before.
\<close>

theorem cumulative_return_compounds:
  assumes "1 \<le> sw" "1 \<le> lw" "rows \<noteq> []"
    and "list_all (\<lambda>r. snd r \<noteq> 0) (butlast rows)"
  shows "\<exists>df p. strategy_frame sw lw rows = Inr df \<and>
           get_strategy_performance instr sw lw rows = Inr (Summary p) \<and>
           cumulative_return p =
             Fin (prod_list (map (\<lambda>i. 1 + real_strat (map snd rows) (signal df) i) [0..<length rows]) - 1) \<and>
           cumulative_return p = spec_cumulative_return (map snd rows) (signal df)"
proof -
  let ?cl = "map snd rows"
  let ?sig = "signal_col (roll_mean (nat sw) ?cl) (roll_mean (nat lw) ?cl)"
  have w: "1 \<le> nat sw" "1 \<le> nat lw" using assms by simp_all
  have len: "length ?sig = length ?cl"
    using w by (simp add: length_signal_col length_roll_mean)
  have nz: "\<forall>i. Suc i < length ?cl \<longrightarrow> ?cl ! i \<noteq> 0"
    using assms(4) by (simp add: list_all_length nth_butlast)
  have sr: "strategy_returns_col (returns_col (map Fin ?cl)) ?sig =
              map Fin (map (real_strat ?cl ?sig) [0..<length ?cl])"
    using len nz by (rule strategy_returns_finite)
  have cr: "cumulative_return_of (strategy_returns_col (returns_col (map Fin ?cl)) ?sig) =
              Fin (prod_list (map (\<lambda>i. 1 + real_strat ?cl ?sig i) [0..<length ?cl]) - 1)"
    by (simp only: sr cumulative_return_of_Fin) (simp add: comp_def)
  have sp: "spec_cumulative_return ?cl ?sig =
              Fin (prod_list (map (\<lambda>i. 1 + real_strat ?cl ?sig i) [0..<length ?cl]) - 1)"
    using nz by (rule spec_cumulative_return_finite)
  show ?thesis
    using assms(3) cr sp
    by (simp add: get_strategy_performance_def strategy_frame_ok [OF assms(1,2)] Let_def)
qed

theorem cumulative_return_compounds_witness:
  "(1::int) \<le> 1 \<and> (1::int) \<le> 2 \<and> example_rows \<noteq> [] \<and>
   list_all (\<lambda>r. snd r \<noteq> 0) (butlast example_rows) \<and>
   (\<exists>df p. strategy_frame 1 2 example_rows = Inr df \<and>
       get_strategy_performance ''HINDALCO'' 1 2 example_rows = Inr (Summary p) \<and>
       cumulative_return p =
         Fin (prod_list (map (\<lambda>i. 1 + real_strat (map snd example_rows) (signal df) i)
                [0..<length example_rows]) - 1) \<and>
       cumulative_return p = spec_cumulative_return (map snd example_rows) (signal df))"
proof -
  have nz: "list_all (\<lambda>r. snd r \<noteq> 0) (butlast example_rows)"
    by (simp add: example_rows_def)
  have ne: "example_rows \<noteq> []" by (simp add: example_rows_def)
  have w: "(1::int) \<le> 1" "(1::int) \<le> 2" by simp_all
  show ?thesis
    using cumulative_return_compounds [of 1 2 example_rows "''HINDALCO''", OF w ne nz] nz ne w
    by (intro conjI) assumption+
qed

text \<open>
  C2 as stated, for every non-empty series, fails when a close of zero is followed by
  another row. For the closes \<open>1, 0, 0\<close> with windows 1 and 2 the signal is \<open>0, -1, 0\<close>;
  the third return is \<open>0/0\<close>, which \<open>fillna(0)\<close> turns into \<open>0\<close>, so the endpoint reports
  a cumulative return of \<open>0\<close>, while the formula has no value there (NaN in floats).
\<close>

theorem cumulative_return_zero_close_counterexample:
  "get_strategy_performance ''HINDALCO'' 1 2 zero_close_rows =
     Inr (Summary \<lparr>buy_signals = [], sell_signals = [], num_buys = 0, num_sells = 0,
        total_trades = 0, cumulative_return = Fin 0, short_window = 1, long_window = 2,
        instrument = ''HINDALCO''\<rparr>) \<and>
   map_sum id signal (strategy_frame 1 2 zero_close_rows) = Inr [0, - 1, 0] \<and>
   spec_cumulative_return (map snd zero_close_rows) [0, - 1, 0] = NaN"
  by (simp add: get_strategy_performance_def strategy_frame_def rolling_mean_def roll_mean_def
        zero_close_rows_def signal_col_def assign_where_def position_col_def diff_def
        astype_float_def shift1_def fillna_def isna_def fl_sub_def buy_events_def sell_events_def
        index_where_def returns_col_def pct_change_def inf_of_sign_def strategy_returns_col_def
        cumulative_return_of_def prod_skipna_def spec_cumulative_return_def spec_strat_def
        spec_r_def upt_rec Let_def)

text \<open>
  C8. For a non-empty series whose closes all equal one value, and positive windows, every
  signal is \<open>0\<close> and the cumulative return is \<open>0\<close>.
\<close>

theorem constant_series_is_flat:
  assumes "1 \<le> sw" "1 \<le> lw" "rows \<noteq> []" and "list_all (\<lambda>r. snd r = c) rows"
  shows "\<exists>df p. strategy_frame sw lw rows = Inr df \<and>
           signal df = replicate (length rows) 0 \<and>
           get_strategy_performance instr sw lw rows = Inr (Summary p) \<and>
           cumulative_return p = Fin 0"
proof -
  have w: "1 \<le> nat sw" "1 \<le> nat lw" using assms by simp_all
  have cl: "map snd rows = replicate (length rows) c"
    using assms(4) by (intro map_const_replicate) (simp add: list_all_iff)
  have cr: "cumulative_return_of (replicate (length rows) (Fin 0)) = Fin 0"
    using cumulative_return_of_Fin [of "replicate (length rows) 0"] by simp
  show ?thesis
    using assms(3) cr
    by (simp add: get_strategy_performance_def strategy_frame_ok [OF assms(1,2)] Let_def cl
          roll_mean_const [OF w(1)] roll_mean_const [OF w(2)] signal_col_same
          returns_col_const strategy_returns_zero)
qed

theorem constant_series_is_flat_witness:
  "(1::int) \<le> 2 \<and> (1::int) \<le> 3 \<and> flat_rows \<noteq> [] \<and> list_all (\<lambda>r. snd r = 100) flat_rows \<and>
   (\<exists>df p. strategy_frame 2 3 flat_rows = Inr df \<and>
           signal df = replicate (length flat_rows) 0 \<and>
           get_strategy_performance ''HINDALCO'' 2 3 flat_rows = Inr (Summary p) \<and>
           cumulative_return p = Fin 0)"
proof -
  have c: "list_all (\<lambda>r. snd r = 100) flat_rows" by (simp add: flat_rows_def)
  have ne: "flat_rows \<noteq> []" by (simp add: flat_rows_def)
  have w: "(1::int) \<le> 2" "(1::int) \<le> 3" by simp_all
  show ?thesis
    using constant_series_is_flat [of 2 3 flat_rows 100 "''HINDALCO''", OF w ne c] c ne w
    by (intro conjI) assumption+
qed

text \<open>
  C4. For a non-empty series and positive windows: the position delta is \<open>0\<close> at index
  \<open>0\<close> and \<open>signal[i] - signal[i-1]\<close> after it; the buy dates are the dates of exactly
  the rows whose delta is \<open>2\<close>, the sell dates those whose delta is \<open>-2\<close>, in row order.
  For the signal sequence \<open>-1, 0, 1\<close> the deltas are \<open>0, 1, 1\<close> and there is neither a buy
  nor a sell event.
\<close>

theorem position_delta_and_events:
  assumes "1 \<le> sw" "1 \<le> lw" "rows \<noteq> []"
  shows "\<exists>df p. strategy_frame sw lw rows = Inr df \<and>
           get_strategy_performance instr sw lw rows = Inr (Summary p) \<and>
           (\<forall>i < length rows. position df ! i =
               (if i = 0 then Fin 0 else Fin (real_of_int (signal df ! i - signal df ! (i - 1))))) \<and>
           buy_signals p = map (\<lambda>i. strftime_date (fst (rows ! i)))
                             (filter (\<lambda>i. position df ! i = Fin 2) [0..<length rows]) \<and>
           sell_signals p = map (\<lambda>i. strftime_date (fst (rows ! i)))
                             (filter (\<lambda>i. position df ! i = Fin (- 2)) [0..<length rows]) \<and>
           position_col [- 1, 0, 1] = [Fin 0, Fin 1, Fin 1] \<and>
           buy_events (position_col [- 1, 0, 1]) [d0, d1, d2] = [] \<and>
           sell_events (position_col [- 1, 0, 1]) [d0, d1, d2] = []"
proof -
  let ?cl = "map snd rows"
  let ?sig = "signal_col (roll_mean (nat sw) ?cl) (roll_mean (nat lw) ?cl)"
  have w: "1 \<le> nat sw" "1 \<le> nat lw" using assms by simp_all
  have len: "length ?sig = length rows"
    using w by (simp add: length_signal_col length_roll_mean)
  have lp: "length (position_col ?sig) = length (map fst rows)"
    using len by (simp add: length_position_col)
  have pos: "\<forall>i < length rows. position_col ?sig ! i =
               (if i = 0 then Fin 0 else Fin (real_of_int (?sig ! i - ?sig ! (i - 1))))"
    using len by (simp add: position_col_nth)
  have ex: "position_col [- 1, 0, 1] = [Fin 0, Fin 1, Fin 1]"
    by (simp add: position_col_def fillna_def diff_def shift1_def astype_float_def isna_def fl_sub_def)
  have b: "buy_events [Fin 0, Fin 1, Fin 1] [d0, d1, d2] = []"
    by (simp add: buy_events_def index_where_def)
  have s: "sell_events [Fin 0, Fin 1, Fin 1] [d0, d1, d2] = []"
    by (simp add: sell_events_def index_where_def)
  have be: "buy_events (position_col ?sig) (map fst rows) =
      map (\<lambda>i. strftime_date (fst (rows ! i))) (filter (\<lambda>i. position_col ?sig ! i = Fin 2) [0..<length rows])"
    using buy_events_filter [OF lp] by simp
  have se: "sell_events (position_col ?sig) (map fst rows) =
      map (\<lambda>i. strftime_date (fst (rows ! i))) (filter (\<lambda>i. position_col ?sig ! i = Fin (- 2)) [0..<length rows])"
    using sell_events_filter [OF lp] by simp
  show ?thesis
    using assms(3) pos
    by (simp add: get_strategy_performance_def strategy_frame_ok [OF assms(1,2)] Let_def
          ex b s be se)
qed

theorem position_delta_and_events_witness:
  "(1::int) \<le> 1 \<and> (1::int) \<le> 2 \<and> example_rows \<noteq> [] \<and>
   (\<exists>df p. strategy_frame 1 2 example_rows = Inr df \<and>
           get_strategy_performance ''HINDALCO'' 1 2 example_rows = Inr (Summary p) \<and>
           (\<forall>i < length example_rows. position df ! i =
               (if i = 0 then Fin 0 else Fin (real_of_int (signal df ! i - signal df ! (i - 1))))) \<and>
           buy_signals p = map (\<lambda>i. strftime_date (fst (example_rows ! i)))
                             (filter (\<lambda>i. position df ! i = Fin 2) [0..<length example_rows]) \<and>
           sell_signals p = map (\<lambda>i. strftime_date (fst (example_rows ! i)))
                             (filter (\<lambda>i. position df ! i = Fin (- 2)) [0..<length example_rows]) \<and>
           position_col [- 1, 0, 1] = [Fin 0, Fin 1, Fin 1] \<and>
           buy_events (position_col [- 1, 0, 1]) [day_of_jan 1, day_of_jan 2, day_of_jan 3] = [] \<and>
           sell_events (position_col [- 1, 0, 1]) [day_of_jan 1, day_of_jan 2, day_of_jan 3] = [])"
proof -
  have ne: "example_rows \<noteq> []" by (simp add: example_rows_def)
  have w: "(1::int) \<le> 1" "(1::int) \<le> 2" by simp_all
  show ?thesis
    using position_delta_and_events [of 1 2 example_rows "''HINDALCO''" "day_of_jan 1" "day_of_jan 2" "day_of_jan 3",
        OF w ne] ne w
    by (intro conjI) assumption+
qed

section \<open>The validators on a row whose fields parse\<close>

lemma parsed_fieldsD:
  assumes "parsed_fields row = Some (dt, c, h, l, ope, v, ins)"
  shows "\<exists>ds cs hs ls os vs is.
           row ''datetime'' = Some (Str ds) \<and> strptime ds = Some dt \<and>
           row ''close'' = Some (Str cs) \<and> py_float cs = Some c \<and>
           row ''high'' = Some (Str hs) \<and> py_float hs = Some h \<and>
           row ''low'' = Some (Str ls) \<and> py_float ls = Some l \<and>
           row ''open'' = Some (Str os) \<and> py_float os = Some ope \<and>
           row ''volume'' = Some (Str vs) \<and> py_int vs = Some v \<and>
           row ''instrument'' = Some (Str is) \<and> ins = py_strip is"
  using assms
  by (auto simp: parsed_fields_def str_field_def bind_eq_Some_conv split: option.splits pyval.splits)

lemma validate_row_parsed:
  assumes "parsed_fields row = Some (dt, c, h, l, ope, v, ins)"
  shows "validate_row row n =
           (if ins = [] then Inl EmptyInstrumentName else ohlc_checks dt c h l ope v ins,
            negative_warnings c h l ope v)"
proof -
  from parsed_fieldsD [OF assms] obtain ds cs hs ls os vs "is" where f:
    "row ''datetime'' = Some (Str ds)" "strptime ds = Some dt"
    "row ''close'' = Some (Str cs)" "py_float cs = Some c"
    "row ''high'' = Some (Str hs)" "py_float hs = Some h"
    "row ''low'' = Some (Str ls)" "py_float ls = Some l"
    "row ''open'' = Some (Str os)" "py_float os = Some ope"
    "row ''volume'' = Some (Str vs)" "py_int vs = Some v"
    "row ''instrument'' = Some (Str is)" "ins = py_strip is"
    by blast
  show ?thesis
    by (simp add: validate_row_def validate_row_body_def and_then_def evaluated_def getitem_def
          validate_datetime_def validate_numeric_def validate_integer_def return_if_none_def
          call_strptime_def call_float_def call_int_def call_strip_def negative_warnings_def f)
qed

lemma validate_row_data_parsed:
  assumes "parsed_fields row = Some (dt, c, h, l, ope, v, ins)"
  shows "validate_row_data row = (if ins = [] then Inl EmptyInstrument else Inr (), [])"
proof -
  from parsed_fieldsD [OF assms] obtain ds cs hs ls os vs "is" where f:
    "row ''datetime'' = Some (Str ds)" "strptime ds = Some dt"
    "row ''close'' = Some (Str cs)" "py_float cs = Some c"
    "row ''high'' = Some (Str hs)" "py_float hs = Some h"
    "row ''low'' = Some (Str ls)" "py_float ls = Some l"
    "row ''open'' = Some (Str os)" "py_float os = Some ope"
    "row ''volume'' = Some (Str vs)" "py_int vs = Some v"
    "row ''instrument'' = Some (Str is)" "ins = py_strip is"
    by blast
  show ?thesis
    by (simp add: validate_row_data_def validate_row_data_body_def then_py_def getitem_def
          call_strptime_def call_float_def call_int_def call_strip_def f)
qed

lemma accepted_of_Cons:
  "accepted_of n (row # rest) =
     (case fst (validate_row row n) of Inr p \<Rightarrow> [p] | Inl e \<Rightarrow> []) @ accepted_of (Suc n) rest"
  by (simp add: accepted_of_def split: sum.splits)

lemma rejected_of_Cons:
  "rejected_of n (row # rest) =
     (case fst (validate_row row n) of Inl e \<Rightarrow> [(n, e)] | Inr p \<Rightarrow> []) @ rejected_of (Suc n) rest"
  by (simp add: rejected_of_def split: sum.splits)

lemma parse_rows_lists:
  "parsed_data (parse_rows st n rows) = parsed_data st @ accepted_of n rows \<and>
   invalid_rows (parse_rows st n rows) = invalid_rows st @ rejected_of n rows"
proof (induction rows arbitrary: st n)
  case Nil
  show ?case by (simp add: accepted_of_def rejected_of_def)
next
  case (Cons row rest)
  show ?case
    by (cases "validate_row row n"; cases "fst (validate_row row n)")
       (simp_all add: Cons.IH accepted_of_Cons rejected_of_Cons)
qed

lemma length_accepted_rejected:
  "length (accepted_of n rows) + length (rejected_of n rows) = length rows"
proof (induction rows arbitrary: n)
  case Nil
  show ?case by (simp add: accepted_of_def rejected_of_def)
next
  case (Cons row rest)
  then show ?case
    by (cases "fst (validate_row row n)") (simp_all add: accepted_of_Cons rejected_of_Cons)
qed

lemma rejected_of_ordinal:
  assumes "(k, e) \<in> set (rejected_of n rows)"
  shows "n \<le> k \<and> k < n + length rows \<and> fst (validate_row (rows ! (k - n)) k) = Inl e"
  using assms
proof (induction rows arbitrary: n)
  case Nil
  then show ?case by (simp add: rejected_of_def)
next
  case (Cons row rest)
  from Cons.prems have "(k = n \<and> fst (validate_row row n) = Inl e) \<or> (k, e) \<in> set (rejected_of (Suc n) rest)"
    by (auto simp: rejected_of_Cons split: sum.splits)
  then show ?case
  proof
    assume "k = n \<and> fst (validate_row row n) = Inl e"
    then show ?thesis by simp
  next
    assume "(k, e) \<in> set (rejected_of (Suc n) rest)"
    from Cons.IH [OF this] have h: "Suc n \<le> k" "k < Suc n + length rest"
      "fst (validate_row (rest ! (k - Suc n)) k) = Inl e" by simp_all
    from h(1) have "k - n = Suc (k - Suc n)" by simp
    then have "(row # rest) ! (k - n) = rest ! (k - Suc n)" by simp
    with h show ?thesis by simp
  qed
qed

lemma bit_length_values:
  "bit_length 100 = 7" "bit_length 149 = 8" "bit_length 150 = 8" "bit_length 153 = 8"
  "bit_length 155 = 8"
  by (simp_all add: bit_length.simps)

lemma binade_values:
  "binade 100 = 6" "binade 150 = 7" "binade 153 = 7" "binade (623 / 4) = 7"
  "binade (597 / 4) = 7" "binade (301 / 2) = 7"
  by (simp_all add: binade_def bit_length_values)

lemma round_double_values:
  "round_double 100 = Fin 100" "round_double 150 = Fin 150" "round_double 153 = Fin 153"
  "round_double (623 / 4) = Fin (623 / 4)" "round_double (597 / 4) = Fin (597 / 4)"
  "round_double (301 / 2) = Fin (301 / 2)"
  by (simp_all add: round_double_def binade_values pow2_def round_half_even_def)

lemmas parser_defs =
  py_float_def py_int_def strptime_def py_strip_def num_strip_def num_isspace_def
  split_sign_def parse_mantissa_def
  parse_exponent_def decimal_value_def digits_value_def digit_val_def is_digit_def
  py_isspace_def ascii_lower_def is_exp_mark_def year_field_def month_field_def day_field_def
  hour_field_def minute_field_def second_field_def white_space_def expect_char_def
  two_or_one_def days_in_month_def is_leap_def Let_def

lemma scenario_strings:
  "strptime ''2024-01-15 09:30:00'' = Some scenario_time"
  "py_float ''153.00'' = Some (Fin 153)"
  "py_float ''155.75'' = Some (Fin (623 / 4))"
  "py_float ''149.25'' = Some (Fin (597 / 4))"
  "py_float ''150.50'' = Some (Fin (301 / 2))"
  "py_float ''100'' = Some (Fin 100)"
  "py_float ''150'' = Some (Fin 150)"
  "py_int ''1000000'' = Some 1000000"
  "py_int ''-5'' = Some (- 5)"
  "py_strip ''HINDALCO'' = ''HINDALCO''"
  by (simp_all add: parser_defs scenario_time_def round_double_values)

lemma parsed_negative_volume_row:
  "parsed_fields negative_volume_row =
     Some (scenario_time, Fin 153, Fin (623 / 4), Fin (597 / 4), Fin (301 / 2), - 5, ''HINDALCO'')"
  by (simp add: parsed_fields_def str_field_def negative_volume_row_def scenario_row_def
        scenario_strings)

lemma parsed_inverted_row:
  "parsed_fields inverted_row =
     Some (scenario_time, Fin 153, Fin 100, Fin 150, Fin (301 / 2), 1000000, ''HINDALCO'')"
  by (simp add: parsed_fields_def str_field_def inverted_row_def scenario_row_def
        scenario_strings)

lemma parsed_inverted_negative_row:
  "parsed_fields inverted_negative_row =
     Some (scenario_time, Fin 153, Fin 100, Fin 150, Fin (301 / 2), - 5, ''HINDALCO'')"
  by (simp add: parsed_fields_def str_field_def inverted_negative_row_def scenario_row_def
        scenario_strings)

lemma parsed_blank_instrument_row:
  "parsed_fields blank_instrument_row =
     Some (scenario_time, Fin 153, Fin 100, Fin 150, Fin (301 / 2), 1000000, [])"
  by (simp add: parsed_fields_def str_field_def blank_instrument_row_def scenario_row_def
        scenario_strings py_strip_def py_isspace_def)

lemma parsed_scenario_row:
  "parsed_fields scenario_row =
     Some (scenario_time, Fin 153, Fin (623 / 4), Fin (597 / 4), Fin (301 / 2), 1000000, ''HINDALCO'')"
  by (simp add: parsed_fields_def str_field_def scenario_row_def scenario_strings)

lemma validate_scenario_row:
  "validate_row scenario_row n =
     (Inr (scenario_time, Fin 153, Fin (623 / 4), Fin (597 / 4), Fin (301 / 2), 1000000, ''HINDALCO''), [])"
  by (simp add: validate_row_parsed [OF parsed_scenario_row] ohlc_checks_def negative_warnings_def)

lemma validate_negative_volume_row:
  "validate_row negative_volume_row n =
     (Inr (scenario_time, Fin 153, Fin (623 / 4), Fin (597 / 4), Fin (301 / 2), - 5, ''HINDALCO''),
      [(WARNING, NegativeValueFound ''volume'' (IntNum (- 5)))])"
  by (simp add: validate_row_parsed [OF parsed_negative_volume_row] ohlc_checks_def
        negative_warnings_def)

lemma py_int_x: "py_int ''x'' = None"
  by (simp add: parser_defs)

lemma validate_bad_volume_row:
  "validate_row bad_volume_row n = (Inl (InvalidVolume (Str ''x'')), [])"
  by (simp add: validate_row_def validate_row_body_def and_then_def evaluated_def getitem_def
        validate_datetime_def validate_numeric_def validate_integer_def return_if_none_def
        call_strptime_def call_float_def call_int_def call_strip_def bad_volume_row_def
        scenario_row_def scenario_strings py_int_x)

section \<open>Properties of the validators\<close>

text \<open>
  C6. A fresh parser that reads a file with the expected header and \<open>N\<close> rows succeeds and
  puts every row into exactly one of its two lists: the lengths add up to \<open>N\<close>; the accepted
  tuples are those of the valid rows in input order; the rejections are those of the invalid
  rows in input order, each with the ordinal of its row, which counts the header as row 1,
  so that the row at position \<open>k - 2\<close> of the data has ordinal \<open>k \<ge> 2\<close>.
\<close>

theorem batch_validation_partitions_rows:
  "fst (parse_csv new_parser (Some \<lparr>fieldnames = Some expected_columns, data_rows = rows\<rparr>)) = True \<and>
   length (parsed_data (snd (parse_csv new_parser (Some \<lparr>fieldnames = Some expected_columns, data_rows = rows\<rparr>)))) +
   length (invalid_rows (snd (parse_csv new_parser (Some \<lparr>fieldnames = Some expected_columns, data_rows = rows\<rparr>))))
     = length rows \<and>
   parsed_data (snd (parse_csv new_parser (Some \<lparr>fieldnames = Some expected_columns, data_rows = rows\<rparr>)))
     = accepted_of 2 rows \<and>
   invalid_rows (snd (parse_csv new_parser (Some \<lparr>fieldnames = Some expected_columns, data_rows = rows\<rparr>)))
     = rejected_of 2 rows \<and>
   (\<forall>(k, e) \<in> set (invalid_rows (snd (parse_csv new_parser
          (Some \<lparr>fieldnames = Some expected_columns, data_rows = rows\<rparr>)))).
      2 \<le> k \<and> k < 2 + length rows \<and> fst (validate_row (rows ! (k - 2)) k) = Inl e)"
  using rejected_of_ordinal [of _ _ 2 rows]
  by (auto simp: parse_csv_def validate_header_def new_parser_def Let_def parse_rows_lists
        length_accepted_rejected)

theorem batch_validation_partitions_rows_witness:
  "fst (parse_csv new_parser (Some example_file)) = True \<and>
   length (parsed_data (snd (parse_csv new_parser (Some example_file)))) +
   length (invalid_rows (snd (parse_csv new_parser (Some example_file)))) = 3 \<and>
   map (fst \<circ> snd) (parsed_data (snd (parse_csv new_parser (Some example_file)))) = [Fin 153, Fin 153] \<and>
   invalid_rows (snd (parse_csv new_parser (Some example_file))) = [(3, InvalidVolume (Str ''x''))]"
  using batch_validation_partitions_rows [of "[scenario_row, bad_volume_row, negative_volume_row]"]
  by (simp add: example_file_def accepted_of_def rejected_of_def
        validate_scenario_row validate_bad_volume_row validate_negative_volume_row)

text \<open>
  C7, as it holds. For every row whose fields all parse and whose instrument is not empty
  after trimming: if \<open>high < low\<close> the reason of the rejection is "high less than low",
  whatever the other relations are; otherwise, if \<open>high < open\<close> or \<open>high < close\<close>, it is
  "high less than open or close"; otherwise, if \<open>low > open\<close> or \<open>low > close\<close>, it is
  "low greater than open or close".
\<close>

theorem ohlc_checks_in_fixed_order:
  assumes "parsed_fields row = Some (dt, c, h, l, ope, v, ins)" "ins \<noteq> []"
  shows "(fl_less h l \<longrightarrow> fst (validate_row row n) = Inl (HighLessThanLow h l)) \<and>
         (\<not> fl_less h l \<and> (fl_less h ope \<or> fl_less h c) \<longrightarrow>
            fst (validate_row row n) = Inl (HighLessThanOpenOrClose h ope c)) \<and>
         (\<not> fl_less h l \<and> \<not> (fl_less h ope \<or> fl_less h c) \<and> (fl_less ope l \<or> fl_less c l) \<longrightarrow>
            fst (validate_row row n) = Inl (LowGreaterThanOpenOrClose l ope c))"
  using assms(2) by (simp add: validate_row_parsed [OF assms(1)] ohlc_checks_def)

theorem ohlc_checks_in_fixed_order_witness:
  "parsed_fields inverted_row =
     Some (scenario_time, Fin 153, Fin 100, Fin 150, Fin (301 / 2), 1000000, ''HINDALCO'') \<and>
   fl_less (Fin 100) (Fin 150) \<and> fl_less (Fin 100) (Fin (301 / 2)) \<and> fl_less (Fin 100) (Fin 153) \<and>
   fst (validate_row inverted_row 2) = Inl (HighLessThanLow (Fin 100) (Fin 150))"
  using ohlc_checks_in_fixed_order [OF parsed_inverted_row, of 2] parsed_inverted_row
  by simp

text \<open>
  C7 as stated, for every row whose fields all parse, fails on a blank instrument: the test
  of the instrument comes before the OHLC relations, so a row whose seven fields parse, with
  \<open>high = 100\<close> below \<open>low = 150\<close> and an instrument of three blanks, is rejected as
  "empty instrument name" and not as "high less than low".
\<close>

theorem blank_instrument_before_ohlc_counterexample:
  "parsed_fields blank_instrument_row =
     Some (scenario_time, Fin 153, Fin 100, Fin 150, Fin (301 / 2), 1000000, []) \<and>
   fl_less (Fin 100) (Fin 150) \<and>
   fst (validate_row blank_instrument_row 2) = Inl EmptyInstrumentName \<and>
   fst (validate_row blank_instrument_row 2) \<noteq> Inl (HighLessThanLow (Fin 100) (Fin 150))"
  by (simp add: validate_row_parsed [OF parsed_blank_instrument_row] parsed_blank_instrument_row)

text \<open>
  C1, as it holds. For every row whose volume parses as a negative integer and whose other
  fields are valid (they parse, the trimmed instrument is not empty, and the OHLC relations
  hold), the strict validator logs a warning for the volume and accepts the row, with the
  negative volume in the parsed tuple.
\<close>

theorem negative_volume_accepted_with_warning:
  assumes "parsed_fields row = Some (dt, c, h, l, ope, v, ins)" "v < 0" "ins \<noteq> []"
    and "\<not> fl_less h l" "\<not> fl_less h ope" "\<not> fl_less h c" "\<not> fl_less ope l" "\<not> fl_less c l"
  shows "fst (validate_row row n) = Inr (dt, c, h, l, ope, v, ins) \<and>
         (WARNING, NegativeValueFound ''volume'' (IntNum v)) \<in> set (snd (validate_row row n))"
  using assms(2-) by (simp add: validate_row_parsed [OF assms(1)] ohlc_checks_def negative_warnings_def)

theorem negative_volume_accepted_with_warning_witness:
  "parsed_fields negative_volume_row =
     Some (scenario_time, Fin 153, Fin (623 / 4), Fin (597 / 4), Fin (301 / 2), - 5, ''HINDALCO'') \<and>
   fst (validate_row negative_volume_row 2) =
     Inr (scenario_time, Fin 153, Fin (623 / 4), Fin (597 / 4), Fin (301 / 2), - 5, ''HINDALCO'') \<and>
   (WARNING, NegativeValueFound ''volume'' (IntNum (- 5))) \<in> set (snd (validate_row negative_volume_row 2))"
  using negative_volume_accepted_with_warning [OF parsed_negative_volume_row, of 2] parsed_negative_volume_row
  by simp

text \<open>
  C1 as stated, that such a row is rejected after parsing for its negative volume, fails:
  the row of the scenario with volume \<open>-5\<close> is accepted, and the only trace of the sign is
  the warning. No check of the validator looks at the volume once it is parsed.
\<close>

theorem negative_volume_not_rejected_counterexample:
  "validate_row negative_volume_row 2 =
     (Inr (scenario_time, Fin 153, Fin (623 / 4), Fin (597 / 4), Fin (301 / 2), - 5, ''HINDALCO''),
      [(WARNING, NegativeValueFound ''volume'' (IntNum (- 5)))])"
  by (simp add: validate_row_parsed [OF parsed_negative_volume_row] ohlc_checks_def
        negative_warnings_def)

text \<open>
  C10. The lenient validator accepts every row whose timestamp, prices and volume parse and
  whose trimmed instrument is not empty, and logs nothing: whatever the relations between
  the prices are (also with \<open>high < low\<close>), and whatever the sign of the volume is.
\<close>

theorem lenient_validator_accepts_parsed_row:
  assumes "parsed_fields row = Some (dt, c, h, l, ope, v, ins)" "ins \<noteq> []"
  shows "validate_row_data row = (Inr (), [])"
  using assms(2) by (simp add: validate_row_data_parsed [OF assms(1)])

theorem lenient_validator_accepts_parsed_row_witness:
  "parsed_fields inverted_negative_row =
     Some (scenario_time, Fin 153, Fin 100, Fin 150, Fin (301 / 2), - 5, ''HINDALCO'') \<and>
   fl_less (Fin 100) (Fin 150) \<and>
   validate_row_data inverted_negative_row = (Inr (), [])"
  using lenient_validator_accepts_parsed_row [OF parsed_inverted_negative_row] parsed_inverted_negative_row
  by simp

end
